theory Spec2Isabelle
  imports Main
begin

section \<open>Values, components and errors\<close>

text \<open>
  A locator is declared \<^verbatim>\<open>any\<close> in the source. The values that the decorators
  tell apart are \<^verbatim>\<open>null\<close>, instances of \<^verbatim>\<open>Descriptor\<close>, and everything else
  (of which booleans and strings are kept, since \<^verbatim>\<open>findFactory\<close> tests the
  truthiness of what \<^verbatim>\<open>canCreate\<close> returns).

  \<^verbatim>\<open>Descriptor\<close> comes from pip-services-commons-node: five fields, each a
  string or \<^verbatim>\<open>null\<close>, read by \<^verbatim>\<open>getGroup\<close> ... \<^verbatim>\<open>getVersion\<close>.
\<close>

datatype descriptor = Descriptor
  (getGroup: "string option")
  (getType: "string option")
  (getKind: "string option")
  (getName: "string option")
  (getVersion: "string option")

datatype jsval = JNull | JBool bool | JStr string | JDesc descriptor

text \<open>JavaScript truthiness, as tested by \<^verbatim>\<open>if (component.canCreate(locator))\<close>.\<close>

fun truthy :: "jsval \<Rightarrow> bool" where
  "truthy JNull = False"
| "truthy (JBool b) = b"
| "truthy (JStr s) = (s \<noteq> [])"
| "truthy (JDesc d) = True"

text \<open>A component is an opaque object reference: a handle.\<close>

type_synonym comp = nat

text \<open>
  \<^verbatim>\<open>new ReferenceException(null, locator)\<close> carries the correlation id and the
  locator; any other error is one raised by a collaborator.
\<close>

datatype error = ReferenceException "string option" jsval | ExternalError string

section \<open>The collaborators\<close>

text \<open>
  Every object outside the two decorators lives in a world of type \<open>'w\<close>: the base and
  the parent reference sets (which may be the same set) and the components themselves.
  Their operations read and change the world; the ones that can raise return a sum.
  They act on the world only: no collaborator calls back into a decorator or writes its
  \<^verbatim>\<open>_opened\<close> field.

  The base set follows the registry contract of the specification (only \<^verbatim>\<open>find\<close>
  can fail); the parent's \<^verbatim>\<open>put\<close> may fail, since the parent is usually a whole
  decorator chain. \<^verbatim>\<open>has_canCreate\<close> and its siblings are the outcomes of
  \<^verbatim>\<open>_.isFunction(component.canCreate)\<close> and of the capability tests of
  \<^verbatim>\<open>Opener\<close> and \<^verbatim>\<open>Closer\<close>. A component's \<^verbatim>\<open>open\<close> and \<^verbatim>\<open>close\<close>
  complete with an error or with none.
\<close>

record 'w env =
  base_find :: "jsval \<Rightarrow> bool \<Rightarrow> 'w \<Rightarrow> (error + comp list) \<times> 'w"
  base_getAll :: "'w \<Rightarrow> comp list \<times> 'w"
  base_put :: "jsval \<Rightarrow> comp \<Rightarrow> 'w \<Rightarrow> unit \<times> 'w"
  base_remove :: "jsval \<Rightarrow> 'w \<Rightarrow> comp option \<times> 'w"
  base_removeAll :: "jsval \<Rightarrow> 'w \<Rightarrow> comp list \<times> 'w"
  parent_put :: "jsval \<Rightarrow> comp \<Rightarrow> 'w \<Rightarrow> (error + unit) \<times> 'w"
  has_canCreate :: "comp \<Rightarrow> bool"
  has_create :: "comp \<Rightarrow> bool"
  comp_canCreate :: "comp \<Rightarrow> jsval \<Rightarrow> 'w \<Rightarrow> (error + jsval) \<times> 'w"
  comp_create :: "comp \<Rightarrow> jsval \<Rightarrow> 'w \<Rightarrow> (error + comp option) \<times> 'w"
  has_open :: "comp \<Rightarrow> bool"
  comp_open :: "comp \<Rightarrow> string option \<Rightarrow> 'w \<Rightarrow> error option \<times> 'w"
  has_close :: "comp \<Rightarrow> bool"
  comp_close :: "comp \<Rightarrow> string option \<Rightarrow> 'w \<Rightarrow> error option \<times> 'w"

text \<open>Every call that leaves the decorators is recorded, in order.\<close>

datatype call =
    BaseFind jsval bool
  | BaseGetAll
  | BasePut jsval comp
  | BaseRemove jsval
  | BaseRemoveAll jsval
  | ParentPut jsval comp
  | CanCreate comp jsval
  | Create comp jsval
  | Open comp "string option"
  | Close comp "string option"

text \<open>
  The program state: the world, the trace of calls, and the field
  \<^verbatim>\<open>_opened\<close> of the run decorator (initially \<^verbatim>\<open>false\<close>).
\<close>

record 'w state =
  world :: 'w
  calls :: "call list"
  opened :: bool

definition invoke :: "call \<Rightarrow> ('w \<Rightarrow> 'a \<times> 'w) \<Rightarrow> 'w state \<Rightarrow> 'a \<times> 'w state" where
  "invoke c f s =
     (case f (world s) of (r, w') \<Rightarrow> (r, s\<lparr>world := w', calls := calls s @ [c]\<rparr>))"

section \<open>ReferencesDecorator\<close>

text \<open>
  Modelled from the spec: \<^verbatim>\<open>refer/ReferencesDecorator.ts\<close>, the superclass of both
  decorators, is not among the sources. By section 4.2 of the specification,
  \<^verbatim>\<open>getAll\<close>, \<^verbatim>\<open>find\<close>, \<^verbatim>\<open>remove\<close> and \<^verbatim>\<open>removeAll\<close> read from or
  mutate the base set, and \<^verbatim>\<open>put\<close> writes to the base set as well.
\<close>

definition ReferencesDecorator_find ::
  "'w env \<Rightarrow> jsval \<Rightarrow> bool \<Rightarrow> 'w state \<Rightarrow> (error + comp list) \<times> 'w state" where
  "ReferencesDecorator_find env locator required s =
     invoke (BaseFind locator required) (base_find env locator required) s"

definition ReferencesDecorator_getAll :: "'w env \<Rightarrow> 'w state \<Rightarrow> comp list \<times> 'w state" where
  "ReferencesDecorator_getAll env s = invoke BaseGetAll (base_getAll env) s"

definition ReferencesDecorator_put ::
  "'w env \<Rightarrow> jsval \<Rightarrow> comp \<Rightarrow> 'w state \<Rightarrow> unit \<times> 'w state" where
  "ReferencesDecorator_put env locator component s =
     invoke (BasePut locator component) (base_put env locator component) s"

definition ReferencesDecorator_remove ::
  "'w env \<Rightarrow> jsval \<Rightarrow> 'w state \<Rightarrow> comp option \<times> 'w state" where
  "ReferencesDecorator_remove env locator s =
     invoke (BaseRemove locator) (base_remove env locator) s"

definition ReferencesDecorator_removeAll ::
  "'w env \<Rightarrow> jsval \<Rightarrow> 'w state \<Rightarrow> comp list \<times> 'w state" where
  "ReferencesDecorator_removeAll env locator s =
     invoke (BaseRemoveAll locator) (base_removeAll env locator) s"

section \<open>BuildReferencesDecorator\<close>

text \<open>
  The loop of \<^verbatim>\<open>findFactory\<close>. Nothing catches an error raised by
  \<^verbatim>\<open>component.canCreate(locator)\<close>: it leaves the loop and the method.
\<close>

fun findFactory_loop ::
  "'w env \<Rightarrow> jsval \<Rightarrow> comp list \<Rightarrow> 'w state \<Rightarrow> (error + comp option) \<times> 'w state" where
  "findFactory_loop env locator [] s = (Inr None, s)"
| "findFactory_loop env locator (component # rest) s =
     (if has_canCreate env component \<and> has_create env component then
        (case invoke (CanCreate component locator) (comp_canCreate env component locator) s of
           (Inl ex, s') \<Rightarrow> (Inl ex, s')
         | (Inr v, s') \<Rightarrow>
             if truthy v then (Inr (Some component), s')
             else findFactory_loop env locator rest s')
      else findFactory_loop env locator rest s)"

definition BuildReferencesDecorator_findFactory ::
  "'w env \<Rightarrow> jsval \<Rightarrow> 'w state \<Rightarrow> (error + comp option) \<times> 'w state" where
  "BuildReferencesDecorator_findFactory env locator s =
     (case ReferencesDecorator_getAll env s of
        (components, s') \<Rightarrow> findFactory_loop env locator components s')"

text \<open>\<^verbatim>\<open>create\<close> turns an error of \<^verbatim>\<open>factory.create\<close> into \<^verbatim>\<open>null\<close>.\<close>

definition BuildReferencesDecorator_create ::
  "'w env \<Rightarrow> jsval \<Rightarrow> comp option \<Rightarrow> 'w state \<Rightarrow> comp option \<times> 'w state" where
  "BuildReferencesDecorator_create env locator factory s =
     (case factory of
        None \<Rightarrow> (None, s)
      | Some f \<Rightarrow>
          (case invoke (Create f locator) (comp_create env f locator) s of
             (Inl ex, s') \<Rightarrow> (None, s')
           | (Inr component, s') \<Rightarrow> (component, s')))"

text \<open>\<^verbatim>\<open>a != null ? a : b\<close> on a field of a descriptor.\<close>

definition orElse :: "'a option \<Rightarrow> 'a option \<Rightarrow> 'a option" where
  "orElse a b = (if a \<noteq> None then a else b)"

definition BuildReferencesDecorator_clarifyLocator ::
  "'w env \<Rightarrow> jsval \<Rightarrow> comp option \<Rightarrow> 'w state \<Rightarrow> (error + jsval) \<times> 'w state" where
  "BuildReferencesDecorator_clarifyLocator env locator factory s =
     (case factory of
        None \<Rightarrow> (Inr locator, s)
      | Some f \<Rightarrow>
          (case locator of
             JDesc descriptor \<Rightarrow>
               (case invoke (CanCreate f locator) (comp_canCreate env f locator) s of
                  (Inl ex, s') \<Rightarrow> (Inl ex, s')
                | (Inr anotherLocator, s') \<Rightarrow>
                    (case anotherLocator of
                       JDesc anotherDescriptor \<Rightarrow>
                         (Inr (JDesc (Descriptor
                            (orElse (getGroup descriptor) (getGroup anotherDescriptor))
                            (orElse (getType descriptor) (getType anotherDescriptor))
                            (orElse (getKind descriptor) (getKind anotherDescriptor))
                            (orElse (getName descriptor) (getName anotherDescriptor))
                            (orElse (getVersion descriptor) (getVersion anotherDescriptor)))),
                          s')
                     | _ \<Rightarrow> (Inr locator, s')))
           | _ \<Rightarrow> (Inr locator, s)))"

text \<open>
  The end of \<^verbatim>\<open>find\<close>: \<^verbatim>\<open>if (required && components.length == 0) throw ...\<close>,
  with the value that the variable \<^verbatim>\<open>locator\<close> holds by then.
\<close>

definition find_result ::
  "jsval \<Rightarrow> bool \<Rightarrow> comp list \<Rightarrow> 'w state \<Rightarrow> (error + comp list) \<times> 'w state" where
  "find_result locator required components s =
     (if required \<and> components = [] then (Inl (ReferenceException None locator), s)
      else (Inr components, s))"

text \<open>
  \<^verbatim>\<open>find\<close>. The \<^verbatim>\<open>try\<close> block holds three statements: the assignment of the
  clarified locator, the \<^verbatim>\<open>put\<close> into the parent, and the \<^verbatim>\<open>push\<close>. An error
  of the first leaves \<^verbatim>\<open>locator\<close> as it was; an error of the second leaves it
  clarified; either way the \<^verbatim>\<open>push\<close> is skipped.
\<close>

definition BuildReferencesDecorator_find ::
  "'w env \<Rightarrow> jsval \<Rightarrow> bool \<Rightarrow> 'w state \<Rightarrow> (error + comp list) \<times> 'w state" where
  "BuildReferencesDecorator_find env locator required s =
     (case ReferencesDecorator_find env locator False s of
        (Inl ex, s1) \<Rightarrow> (Inl ex, s1)
      | (Inr components, s1) \<Rightarrow>
          if required \<and> components = [] then
            (case BuildReferencesDecorator_findFactory env locator s1 of
               (Inl ex, s2) \<Rightarrow> (Inl ex, s2)
             | (Inr factory, s2) \<Rightarrow>
                 (case BuildReferencesDecorator_create env locator factory s2 of
                    (None, s3) \<Rightarrow> find_result locator required components s3
                  | (Some component, s3) \<Rightarrow>
                      (case BuildReferencesDecorator_clarifyLocator env locator factory s3 of
                         (Inl ex, s4) \<Rightarrow> find_result locator required components s4
                       | (Inr locator', s4) \<Rightarrow>
                           (case invoke (ParentPut locator' component)
                                   (parent_put env locator' component) s4 of
                              (Inl ex, s5) \<Rightarrow> find_result locator' required components s5
                            | (Inr u, s5) \<Rightarrow>
                                find_result locator' required (components @ [component]) s5))))
          else find_result locator required components s1)"

text \<open>
  The claims speak of registered factories that can, or cannot, create a locator. In
  terms of the collaborators: \<^verbatim>\<open>findFactory\<close> passes over a component in world
  \<open>w\<close> when the component lacks \<^verbatim>\<open>canCreate\<close> or \<^verbatim>\<open>create\<close>, or when its probe,
  asked in \<open>w\<close>, returns a falsy value (and does not raise); \<open>probed\<close> is the world
  that passing over it leaves.
\<close>

definition probed :: "'w env \<Rightarrow> jsval \<Rightarrow> 'w \<Rightarrow> comp \<Rightarrow> 'w" where
  "probed env locator w c =
     (if has_canCreate env c \<and> has_create env c then snd (comp_canCreate env c locator w)
      else w)"

definition declines :: "'w env \<Rightarrow> jsval \<Rightarrow> 'w \<Rightarrow> comp \<Rightarrow> bool" where
  "declines env locator w c =
     (has_canCreate env c \<and> has_create env c \<longrightarrow>
        (case fst (comp_canCreate env c locator w) of
           Inl ex \<Rightarrow> False
         | Inr v \<Rightarrow> \<not> truthy v))"

section \<open>Opener and Closer\<close>

text \<open>
  Modelled from the spec: \<^verbatim>\<open>Opener\<close> and \<^verbatim>\<open>Closer\<close> belong to
  pip-services-commons-node and are not among the sources. By sections 4.4 and 5 of the
  specification, opening a collection invokes the \<^verbatim>\<open>open\<close> of each component that
  exposes the capability, in order, one after the other; components without it are
  skipped; the first failure ends the batch and is the error reported. Closing does the
  same with \<^verbatim>\<open>close\<close>. The result is the error handed to the callback on
  completion (\<open>None\<close> for \<^verbatim>\<open>null\<close>); a caller that passes no callback discards it.
\<close>

definition Opener_openOne ::
  "'w env \<Rightarrow> string option \<Rightarrow> comp \<Rightarrow> 'w state \<Rightarrow> error option \<times> 'w state" where
  "Opener_openOne env correlationId component s =
     (if has_open env component then
        invoke (Open component correlationId) (comp_open env component correlationId) s
      else (None, s))"

fun Opener_open ::
  "'w env \<Rightarrow> string option \<Rightarrow> comp list \<Rightarrow> 'w state \<Rightarrow> error option \<times> 'w state" where
  "Opener_open env correlationId [] s = (None, s)"
| "Opener_open env correlationId (component # rest) s =
     (case Opener_openOne env correlationId component s of
        (Some err, s') \<Rightarrow> (Some err, s')
      | (None, s') \<Rightarrow> Opener_open env correlationId rest s')"

definition Closer_closeOne ::
  "'w env \<Rightarrow> string option \<Rightarrow> comp \<Rightarrow> 'w state \<Rightarrow> error option \<times> 'w state" where
  "Closer_closeOne env correlationId component s =
     (if has_close env component then
        invoke (Close component correlationId) (comp_close env component correlationId) s
      else (None, s))"

fun Closer_close ::
  "'w env \<Rightarrow> string option \<Rightarrow> comp list \<Rightarrow> 'w state \<Rightarrow> error option \<times> 'w state" where
  "Closer_close env correlationId [] s = (None, s)"
| "Closer_close env correlationId (component # rest) s =
     (case Closer_closeOne env correlationId component s of
        (Some err, s') \<Rightarrow> (Some err, s')
      | (None, s') \<Rightarrow> Closer_close env correlationId rest s')"

section \<open>RunReferencesDecorator\<close>

definition RunReferencesDecorator_isOpen :: "'w state \<Rightarrow> bool" where
  "RunReferencesDecorator_isOpen s = opened s"

text \<open>
  \<^verbatim>\<open>open\<close> and \<^verbatim>\<open>close\<close> return the error that the callback receives. The
  assignment to \<^verbatim>\<open>_opened\<close> sits in the completion of the batch.
\<close>

definition RunReferencesDecorator_open ::
  "'w env \<Rightarrow> string option \<Rightarrow> 'w state \<Rightarrow> error option \<times> 'w state" where
  "RunReferencesDecorator_open env correlationId s =
     (if \<not> opened s then
        (case ReferencesDecorator_getAll env s of
           (components, s1) \<Rightarrow>
             (case Opener_open env correlationId components s1 of
                (err, s2) \<Rightarrow> (err, if err = None then s2\<lparr>opened := True\<rparr> else s2)))
      else (None, s))"

definition RunReferencesDecorator_close ::
  "'w env \<Rightarrow> string option \<Rightarrow> 'w state \<Rightarrow> error option \<times> 'w state" where
  "RunReferencesDecorator_close env correlationId s =
     (if opened s then
        (case ReferencesDecorator_getAll env s of
           (components, s1) \<Rightarrow>
             (case Closer_close env correlationId components s1 of
                (err, s2) \<Rightarrow> (err, s2\<lparr>opened := False\<rparr>)))
      else (None, s))"

text \<open>
  \<^verbatim>\<open>put\<close>, \<^verbatim>\<open>remove\<close> and \<^verbatim>\<open>removeAll\<close> pass \<^verbatim>\<open>null\<close> for the
  correlation id and for the callback, so whatever the opening or closing reports is
  dropped. When the base set's \<^verbatim>\<open>remove\<close> finds nothing it returns \<^verbatim>\<open>null\<close>;
  the specification speaks of closing each removed component only, so nothing is closed
  then.
\<close>

definition RunReferencesDecorator_put :: "'w env \<Rightarrow> jsval \<Rightarrow> comp \<Rightarrow> 'w state \<Rightarrow> 'w state" where
  "RunReferencesDecorator_put env locator component s =
     (case ReferencesDecorator_put env locator component s of
        (u, s1) \<Rightarrow>
          if opened s1 then snd (Opener_openOne env None component s1) else s1)"

definition RunReferencesDecorator_remove ::
  "'w env \<Rightarrow> jsval \<Rightarrow> 'w state \<Rightarrow> comp option \<times> 'w state" where
  "RunReferencesDecorator_remove env locator s =
     (case ReferencesDecorator_remove env locator s of
        (component, s1) \<Rightarrow>
          if opened s1 then
            (case component of
               None \<Rightarrow> (component, s1)
             | Some c \<Rightarrow> (component, snd (Closer_closeOne env None c s1)))
          else (component, s1))"

definition RunReferencesDecorator_removeAll ::
  "'w env \<Rightarrow> jsval \<Rightarrow> 'w state \<Rightarrow> comp list \<times> 'w state" where
  "RunReferencesDecorator_removeAll env locator s =
     (case ReferencesDecorator_removeAll env locator s of
        (components, s1) \<Rightarrow>
          if opened s1 then (components, snd (Closer_close env None components s1))
          else (components, s1))"

section \<open>The reference registry\<close>

text \<open>
  Modelled from the spec: the registry that the decorators wrap is not among the
  sources. By sections 3 and 4.1 of the specification it is an ordered sequence of
  (locator, component) pairs; two descriptors match if every pair of fields is equal or
  has a wildcard (\<^verbatim>\<open>null\<close>) on either side, and other locators match when they are
  equal; \<^verbatim>\<open>put\<close> appends, \<^verbatim>\<open>find\<close> returns the matching components in insertion
  order and fails when it is required and finds none, \<^verbatim>\<open>remove\<close> takes out the first
  match, \<^verbatim>\<open>removeAll\<close> every match, \<^verbatim>\<open>getAll\<close> returns every component.
\<close>

type_synonym reference = "jsval \<times> comp"

definition matchField :: "string option \<Rightarrow> string option \<Rightarrow> bool" where
  "matchField a b = (a = None \<or> b = None \<or> a = b)"

fun locator_match :: "jsval \<Rightarrow> jsval \<Rightarrow> bool" where
  "locator_match (JDesc a) (JDesc b) =
     (matchField (getGroup a) (getGroup b) \<and> matchField (getType a) (getType b) \<and>
      matchField (getKind a) (getKind b) \<and> matchField (getName a) (getName b) \<and>
      matchField (getVersion a) (getVersion b))"
| "locator_match a b = (a = b)"

definition Registry_put :: "jsval \<Rightarrow> comp \<Rightarrow> reference list \<Rightarrow> reference list" where
  "Registry_put locator component refs = refs @ [(locator, component)]"

definition Registry_find :: "jsval \<Rightarrow> bool \<Rightarrow> reference list \<Rightarrow> error + comp list" where
  "Registry_find locator required refs =
     (let components = map snd (filter (\<lambda>r. locator_match (fst r) locator) refs) in
      if required \<and> components = [] then Inl (ReferenceException None locator)
      else Inr components)"

definition Registry_getAll :: "reference list \<Rightarrow> comp list" where
  "Registry_getAll refs = map snd refs"

fun Registry_remove :: "jsval \<Rightarrow> reference list \<Rightarrow> comp option \<times> reference list" where
  "Registry_remove locator [] = (None, [])"
| "Registry_remove locator (r # refs) =
     (if locator_match (fst r) locator then (Some (snd r), refs)
      else (case Registry_remove locator refs of (c, refs') \<Rightarrow> (c, r # refs')))"

definition Registry_removeAll :: "jsval \<Rightarrow> reference list \<Rightarrow> comp list \<times> reference list" where
  "Registry_removeAll locator refs =
     (map snd (filter (\<lambda>r. locator_match (fst r) locator) refs),
      filter (\<lambda>r. \<not> locator_match (fst r) locator) refs)"

text \<open>
  A decorator whose base and parent are one registry, over components without any
  capability. The examples below add factories and openable components to it.
\<close>

definition registry_env :: "reference list env" where
  "registry_env =
     \<lparr> base_find = (\<lambda>locator required refs. (Registry_find locator required refs, refs)),
       base_getAll = (\<lambda>refs. (Registry_getAll refs, refs)),
       base_put = (\<lambda>locator component refs. ((), Registry_put locator component refs)),
       base_remove = Registry_remove,
       base_removeAll = Registry_removeAll,
       parent_put = (\<lambda>locator component refs. (Inr (), Registry_put locator component refs)),
       has_canCreate = (\<lambda>c. False),
       has_create = (\<lambda>c. False),
       comp_canCreate = (\<lambda>c locator refs. (Inr JNull, refs)),
       comp_create = (\<lambda>c locator refs. (Inr None, refs)),
       has_open = (\<lambda>c. False),
       comp_open = (\<lambda>c correlationId refs. (None, refs)),
       has_close = (\<lambda>c. False),
       comp_close = (\<lambda>c correlationId refs. (None, refs)) \<rparr>"

definition initial :: "reference list \<Rightarrow> reference list state" where
  "initial refs = \<lparr> world = refs, calls = [], opened = False \<rparr>"

section \<open>Example configurations\<close>

text \<open>
  The locators of the example of section 8 of the specification: the one asked for, the
  one the factory answers with, and their merge.
\<close>

definition loc_query :: jsval where
  "loc_query = JDesc (Descriptor (Some ''g'') None (Some ''k'') None None)"

definition loc_full :: jsval where
  "loc_full =
     JDesc (Descriptor (Some ''g2'') (Some ''t'') (Some ''k2'') (Some ''n'') (Some ''v''))"

definition loc_merged :: jsval where
  "loc_merged =
     JDesc (Descriptor (Some ''g'') (Some ''t'') (Some ''k'') (Some ''n'') (Some ''v''))"

text \<open>Component 1 is a factory: it answers every probe with \<open>loc_full\<close> and builds component 7.\<close>

definition factory_env :: "reference list env" where
  "factory_env = registry_env
     \<lparr> has_canCreate := (\<lambda>c. c = 1), has_create := (\<lambda>c. c = 1),
       comp_canCreate := (\<lambda>c locator refs. (Inr loc_full, refs)),
       comp_create := (\<lambda>c locator refs. (Inr (Some 7), refs)) \<rparr>"

text \<open>The same, behind a parent whose \<^verbatim>\<open>put\<close> raises.\<close>

definition put_fail_env :: "reference list env" where
  "put_fail_env = factory_env
     \<lparr> parent_put := (\<lambda>locator component refs. (Inl (ExternalError ''put failed''), refs)) \<rparr>"

text \<open>The same, with a factory whose probe raises.\<close>

definition probe_fail_env :: "reference list env" where
  "probe_fail_env = factory_env
     \<lparr> comp_canCreate := (\<lambda>c locator refs. (Inl (ExternalError ''probe failed''), refs)) \<rparr>"



text \<open>
  Every component can be opened and closed; the \<^verbatim>\<open>open\<close> and the \<^verbatim>\<open>close\<close> of
  component \<open>bad\<close> fail.
\<close>

definition run_env :: "comp \<Rightarrow> reference list env" where
  "run_env bad = registry_env
     \<lparr> has_open := (\<lambda>c. True),
       comp_open := (\<lambda>c correlationId refs.
          (if c = bad then Some (ExternalError ''open failed'') else None, refs)),
       has_close := (\<lambda>c. True),
       comp_close := (\<lambda>c correlationId refs.
          (if c = bad then Some (ExternalError ''close failed'') else None, refs)) \<rparr>"

definition three_components :: "reference list" where
  "three_components = [(JStr ''a'', 1), (JStr ''b'', 2), (JStr ''c'', 3)]"

section \<open>Auxiliary facts\<close>

lemmas registry_defs = registry_env_def initial_def Registry_find_def Registry_put_def
  Registry_getAll_def matchField_def loc_query_def loc_full_def loc_merged_def

lemmas build_defs = BuildReferencesDecorator_find_def ReferencesDecorator_find_def
  ReferencesDecorator_getAll_def BuildReferencesDecorator_findFactory_def
  BuildReferencesDecorator_create_def BuildReferencesDecorator_clarifyLocator_def
  find_result_def invoke_def orElse_def

lemma invoke_eq:
  "f (world s) = (r, w') \<Longrightarrow> invoke c f s = (r, s\<lparr>world := w', calls := calls s @ [c]\<rparr>)"
  by (simp add: invoke_def)

lemma invoke_opened: "invoke c f s = (r, s') \<Longrightarrow> opened s' = opened s"
  by (auto simp add: invoke_def split: prod.splits)

lemma findFactory_loop_skipped:
  "findFactory_loop env locator pre s1 = (Inr None, s2) \<Longrightarrow>
   findFactory_loop env locator (pre @ rest) s1 = findFactory_loop env locator rest s2"
proof (induction pre arbitrary: s1)
  case Nil
  then show ?case by simp
next
  case (Cons c pre)
  then show ?case
    by (auto split: if_splits prod.splits sum.splits)
qed






lemma findFactory_loop_none_declined:
  "findFactory_loop env locator cs s = (Inr None, s2) \<Longrightarrow>
   i < length cs \<Longrightarrow>
   declines env locator (foldl (probed env locator) (world s) (take i cs)) (cs ! i)"
proof (induction cs arbitrary: s i)
  case Nil
  then show ?case by simp
next
  case (Cons c cs)
  show ?case
  proof (cases "has_canCreate env c \<and> has_create env c")
    case False
    then have w: "probed env locator (world s) c = world s" by (auto simp add: probed_def)
    from False Cons.prems(1) have l: "findFactory_loop env locator cs s = (Inr None, s2)"
      by auto
    show ?thesis
    proof (cases i)
      case 0
      then show ?thesis using False by (auto simp add: declines_def)
    next
      case (Suc j)
      then show ?thesis using Cons.IH [OF l, of j] Cons.prems(2) w by simp
    qed
  next
    case True
    obtain r w' where p: "comp_canCreate env c locator (world s) = (r, w')"
      by (cases "comp_canCreate env c locator (world s)")
    let ?s' = "s\<lparr>world := w', calls := calls s @ [CanCreate c locator]\<rparr>"
    from True p Cons.prems(1) obtain v where v: "r = Inr v" "\<not> truthy v"
        and l: "findFactory_loop env locator cs ?s' = (Inr None, s2)"
      by (cases r) (auto simp add: invoke_eq split: if_splits)
    have w: "probed env locator (world s) c = w'"
      using True p by (simp add: probed_def)
    show ?thesis
    proof (cases i)
      case 0
      then show ?thesis using p v by (simp add: declines_def)
    next
      case (Suc j)
      then show ?thesis using Cons.IH [OF l, of j] Cons.prems(2) w by simp
    qed
  qed
qed




lemma Opener_openOne_opened: "Opener_openOne env cid c s = (r, s') \<Longrightarrow> opened s' = opened s"
  by (auto simp add: Opener_openOne_def split: if_splits dest: invoke_opened)

lemma Closer_closeOne_opened: "Closer_closeOne env cid c s = (r, s') \<Longrightarrow> opened s' = opened s"
  by (auto simp add: Closer_closeOne_def split: if_splits dest: invoke_opened)

lemma Opener_open_opened: "Opener_open env cid cs s = (r, s') \<Longrightarrow> opened s' = opened s"
proof (induction cs arbitrary: s)
  case Nil
  then show ?case by simp
next
  case (Cons c cs)
  then show ?case
    by (auto split: prod.splits option.splits dest: Opener_openOne_opened)
qed

lemma Closer_close_opened: "Closer_close env cid cs s = (r, s') \<Longrightarrow> opened s' = opened s"
proof (induction cs arbitrary: s)
  case Nil
  then show ?case by simp
next
  case (Cons c cs)
  then show ?case
    by (auto split: prod.splits option.splits dest: Closer_closeOne_opened)
qed

lemma Opener_open_prefix:
  "Opener_open env cid pre s1 = (None, s2) \<Longrightarrow>
   Opener_open env cid (pre @ rest) s1 = Opener_open env cid rest s2"
proof (induction pre arbitrary: s1)
  case Nil
  then show ?case by simp
next
  case (Cons c pre)
  then show ?case
    by (auto split: prod.splits option.splits)
qed

lemma Opener_open_calls:
  "Opener_open env cid pre s1 = (None, s2) \<Longrightarrow>
   calls s2 = calls s1 @ map (\<lambda>x. Open x cid) (filter (has_open env) pre)"
proof (induction pre arbitrary: s1)
  case Nil
  then show ?case by simp
next
  case (Cons c pre)
  then show ?case
    by (auto simp add: Opener_openOne_def invoke_def split: prod.splits option.splits if_splits)
qed

lemma invoke_opened_snd: "opened (snd (invoke c f s)) = opened s"
  by (cases "invoke c f s") (auto dest: invoke_opened)

lemma Opener_openOne_opened_snd: "opened (snd (Opener_openOne env cid c s)) = opened s"
  by (cases "Opener_openOne env cid c s") (auto dest: Opener_openOne_opened)

lemma Closer_closeOne_opened_snd: "opened (snd (Closer_closeOne env cid c s)) = opened s"
  by (cases "Closer_closeOne env cid c s") (auto dest: Closer_closeOne_opened)

lemma Opener_open_opened_snd: "opened (snd (Opener_open env cid cs s)) = opened s"
  by (cases "Opener_open env cid cs s") (auto dest: Opener_open_opened)

lemma Closer_close_opened_snd: "opened (snd (Closer_close env cid cs s)) = opened s"
  by (cases "Closer_close env cid cs s") (auto dest: Closer_close_opened)

lemma Opener_open_failure_decomposes:
  "Opener_open env cid cs s1 = (Some err, s3) \<Longrightarrow>
   \<exists>pre c post s2 w3. cs = pre @ c # post \<and> Opener_open env cid pre s1 = (None, s2) \<and>
     has_open env c \<and> comp_open env c cid (world s2) = (Some err, w3)"
proof (induction cs arbitrary: s1)
  case Nil
  then show ?case by simp
next
  case (Cons a cs)
  obtain r s' where one: "Opener_openOne env cid a s1 = (r, s')"
    by (cases "Opener_openOne env cid a s1")
  show ?case
  proof (cases r)
    case None
    with Cons.prems one have "Opener_open env cid cs s' = (Some err, s3)" by simp
    then obtain pre c post s2 w3 where d: "cs = pre @ c # post"
        "Opener_open env cid pre s' = (None, s2)" "has_open env c"
        "comp_open env c cid (world s2) = (Some err, w3)"
      using Cons.IH by blast
    have "a # cs = (a # pre) @ c # post" using d(1) by simp
    moreover have "Opener_open env cid (a # pre) s1 = (None, s2)"
      using one None d(2) by simp
    ultimately show ?thesis using d(3,4) by blast
  next
    case (Some e)
    with Cons.prems one have e: "e = err" by simp
    have ho: "has_open env a"
      using one Some by (auto simp add: Opener_openOne_def split: if_splits)
    then obtain w3 where "comp_open env a cid (world s1) = (Some err, w3)"
      using one Some e by (auto simp add: Opener_openOne_def invoke_def split: prod.splits)
    moreover have "a # cs = [] @ a # cs" by simp
    moreover have "Opener_open env cid [] s1 = (None, s1)" by simp
    ultimately show ?thesis using ho by blast
  qed
qed

section \<open>BuildReferencesDecorator: a hit in the base set\<close>

text \<open>
  C10. Whatever \<^verbatim>\<open>required\<close> is, when the base set's \<^verbatim>\<open>find\<close> returns a
  non-empty result, \<^verbatim>\<open>find\<close> of the build decorator returns exactly that result; the
  lookup in the base set is the only call it makes (no probe, no \<^verbatim>\<open>create\<close>, no
  \<^verbatim>\<open>put\<close> into the parent), and the world is the one that lookup left.
\<close>

theorem find_base_hit_frame:
  assumes "base_find env locator False (world s) = (Inr components, w')"
    and "components \<noteq> []"
  shows "BuildReferencesDecorator_find env locator required s =
           (Inr components, s\<lparr>world := w', calls := calls s @ [BaseFind locator False]\<rparr>)"
  using assms
  by (simp add: BuildReferencesDecorator_find_def ReferencesDecorator_find_def invoke_eq
      find_result_def)

theorem find_base_hit_frame_witness:
  "base_find factory_env loc_query False (world (initial [(JStr ''factory'', 1), (loc_merged, 7)]))
     = (Inr [7], [(JStr ''factory'', 1), (loc_merged, 7)]) \<and> [7::nat] \<noteq> [] \<and>
   BuildReferencesDecorator_find factory_env loc_query True
       (initial [(JStr ''factory'', 1), (loc_merged, 7)]) =
     (Inr [7], \<lparr>world = [(JStr ''factory'', 1), (loc_merged, 7)],
                calls = [BaseFind loc_query False], opened = False\<rparr>)"
  using find_base_hit_frame [of factory_env loc_query
      "initial [(JStr ''factory'', 1), (loc_merged, 7)]" "[7]"
      "[(JStr ''factory'', 1), (loc_merged, 7)]" True]
  by (simp add: registry_defs factory_env_def)

section \<open>BuildReferencesDecorator: clarifying a locator\<close>

text \<open>
  C5. Without a factory, or for a locator that is not a descriptor, \<^verbatim>\<open>clarifyLocator\<close>
  returns the locator as it is and calls nothing. For a descriptor and a factory whose
  \<^verbatim>\<open>canCreate\<close> returns a value: if that value is a descriptor, the result is the
  descriptor whose five fields are each the original's when it is not \<^verbatim>\<open>null\<close> and
  the factory's otherwise; if it is \<^verbatim>\<open>null\<close> or anything else, the result is the
  original locator.
\<close>

theorem clarifyLocator_merge:
  "(factory = None \<or> (\<forall>d. locator \<noteq> JDesc d) \<longrightarrow>
      BuildReferencesDecorator_clarifyLocator env locator factory s = (Inr locator, s)) \<and>
   (\<forall>f d v w'. factory = Some f \<and> locator = JDesc d \<and>
        comp_canCreate env f locator (world s) = (Inr v, w') \<longrightarrow>
      fst (BuildReferencesDecorator_clarifyLocator env locator factory s) =
        (case v of
           JDesc a \<Rightarrow> Inr (JDesc (Descriptor
             (if getGroup d \<noteq> None then getGroup d else getGroup a)
             (if getType d \<noteq> None then getType d else getType a)
             (if getKind d \<noteq> None then getKind d else getKind a)
             (if getName d \<noteq> None then getName d else getName a)
             (if getVersion d \<noteq> None then getVersion d else getVersion a)))
         | _ \<Rightarrow> Inr locator))"
proof (cases factory)
  case None
  then show ?thesis by (simp add: BuildReferencesDecorator_clarifyLocator_def)
next
  case (Some f)
  show ?thesis
  proof (cases locator)
    case (JDesc d)
    obtain g t k n v where d: "d = Descriptor g t k n v" by (cases d)
    show ?thesis
      using Some JDesc d
      by (auto simp add: BuildReferencesDecorator_clarifyLocator_def invoke_def orElse_def
          split: jsval.splits)
  qed (simp_all add: Some BuildReferencesDecorator_clarifyLocator_def)
qed

theorem clarifyLocator_merge_witness:
  "comp_canCreate factory_env 1 loc_query (world (initial [])) = (Inr loc_full, []) \<and>
   fst (BuildReferencesDecorator_clarifyLocator factory_env loc_query (Some 1) (initial []))
     = Inr loc_merged \<and>
   BuildReferencesDecorator_clarifyLocator factory_env (JStr ''x'') (Some 1) (initial [])
     = (Inr (JStr ''x''), initial [])"
  using clarifyLocator_merge [of "Some 1" loc_query factory_env "initial []"]
    clarifyLocator_merge [of "Some 1" "JStr ''x''" factory_env "initial []"]
  by (simp add: registry_defs factory_env_def)

section \<open>BuildReferencesDecorator: building on a miss\<close>




text \<open>
  C1, in the form the code satisfies. If the base set has no match, a factory is found, its \<^verbatim>\<open>create\<close>
  returns a component and the locator is clarified, but the \<^verbatim>\<open>put\<close> into the parent
  raises, then that error is not the one \<^verbatim>\<open>find\<close> reports: the \<^verbatim>\<open>push\<close> that
  follows the \<^verbatim>\<open>put\<close> in the same \<^verbatim>\<open>try\<close> block is skipped with it, the result
  stays empty, and the required \<^verbatim>\<open>find\<close> fails with \<^verbatim>\<open>ReferenceException\<close>
  carrying the clarified locator.
\<close>

theorem find_put_failure_not_found:
  assumes "ReferencesDecorator_find env locator False s = (Inr [], s1)"
    and "BuildReferencesDecorator_findFactory env locator s1 = (Inr (Some f), s2)"
    and "BuildReferencesDecorator_create env locator (Some f) s2 = (Some component, s3)"
    and "BuildReferencesDecorator_clarifyLocator env locator (Some f) s3 = (Inr locator', s4)"
    and "parent_put env locator' component (world s4) = (Inl ex, w5)"
  shows "BuildReferencesDecorator_find env locator True s =
           (Inl (ReferenceException None locator'),
            s4\<lparr>world := w5, calls := calls s4 @ [ParentPut locator' component]\<rparr>)"
  using assms
  by (simp add: BuildReferencesDecorator_find_def invoke_eq find_result_def)

theorem find_put_failure_not_found_witness:
  "ReferencesDecorator_find put_fail_env loc_query False (initial [(JStr ''factory'', 1)]) =
     (Inr [], \<lparr>world = [(JStr ''factory'', 1)], calls = [BaseFind loc_query False],
               opened = False\<rparr>) \<and>
   BuildReferencesDecorator_findFactory put_fail_env loc_query
       \<lparr>world = [(JStr ''factory'', 1)], calls = [BaseFind loc_query False], opened = False\<rparr> =
     (Inr (Some 1), \<lparr>world = [(JStr ''factory'', 1)],
        calls = [BaseFind loc_query False, BaseGetAll, CanCreate 1 loc_query], opened = False\<rparr>) \<and>
   BuildReferencesDecorator_create put_fail_env loc_query (Some 1)
       \<lparr>world = [(JStr ''factory'', 1)],
        calls = [BaseFind loc_query False, BaseGetAll, CanCreate 1 loc_query], opened = False\<rparr> =
     (Some 7, \<lparr>world = [(JStr ''factory'', 1)],
        calls = [BaseFind loc_query False, BaseGetAll, CanCreate 1 loc_query, Create 1 loc_query],
        opened = False\<rparr>) \<and>
   BuildReferencesDecorator_clarifyLocator put_fail_env loc_query (Some 1)
       \<lparr>world = [(JStr ''factory'', 1)],
        calls = [BaseFind loc_query False, BaseGetAll, CanCreate 1 loc_query, Create 1 loc_query],
        opened = False\<rparr> =
     (Inr loc_merged, \<lparr>world = [(JStr ''factory'', 1)],
        calls = [BaseFind loc_query False, BaseGetAll, CanCreate 1 loc_query, Create 1 loc_query,
                 CanCreate 1 loc_query],
        opened = False\<rparr>) \<and>
   parent_put put_fail_env loc_merged 7 [(JStr ''factory'', 1)] =
     (Inl (ExternalError ''put failed''), [(JStr ''factory'', 1)]) \<and>
   BuildReferencesDecorator_find put_fail_env loc_query True (initial [(JStr ''factory'', 1)]) =
     (Inl (ReferenceException None loc_merged),
      \<lparr>world = [(JStr ''factory'', 1)],
       calls = [BaseFind loc_query False, BaseGetAll, CanCreate 1 loc_query, Create 1 loc_query,
                CanCreate 1 loc_query, ParentPut loc_merged 7],
       opened = False\<rparr>)"
  using find_put_failure_not_found [of put_fail_env loc_query "initial [(JStr ''factory'', 1)]"
      "\<lparr>world = [(JStr ''factory'', 1)], calls = [BaseFind loc_query False], opened = False\<rparr>"
      1
      "\<lparr>world = [(JStr ''factory'', 1)],
        calls = [BaseFind loc_query False, BaseGetAll, CanCreate 1 loc_query], opened = False\<rparr>"
      7
      "\<lparr>world = [(JStr ''factory'', 1)],
        calls = [BaseFind loc_query False, BaseGetAll, CanCreate 1 loc_query, Create 1 loc_query],
        opened = False\<rparr>"
      loc_merged
      "\<lparr>world = [(JStr ''factory'', 1)],
        calls = [BaseFind loc_query False, BaseGetAll, CanCreate 1 loc_query, Create 1 loc_query,
                 CanCreate 1 loc_query],
        opened = False\<rparr>"
      "ExternalError ''put failed''" "[(JStr ''factory'', 1)]"]
  by (simp add: registry_defs factory_env_def put_fail_env_def build_defs)

theorem find_put_failure_counterexample:
  "fst (ReferencesDecorator_find put_fail_env loc_query False (initial [(JStr ''factory'', 1)]))
     = Inr [] \<and>
   parent_put put_fail_env loc_merged 7 [(JStr ''factory'', 1)] =
     (Inl (ExternalError ''put failed''), [(JStr ''factory'', 1)]) \<and>
   BuildReferencesDecorator_find put_fail_env loc_query True (initial [(JStr ''factory'', 1)]) =
     (Inl (ReferenceException None loc_merged),
      \<lparr>world = [(JStr ''factory'', 1)],
       calls = [BaseFind loc_query False, BaseGetAll, CanCreate 1 loc_query, Create 1 loc_query,
                CanCreate 1 loc_query, ParentPut loc_merged 7],
       opened = False\<rparr>)"
  by (simp add: registry_defs factory_env_def put_fail_env_def build_defs)

section \<open>BuildReferencesDecorator: a probe that raises\<close>

text \<open>
  C2, in the form the code satisfies. While \<^verbatim>\<open>findFactory\<close> scans the registered components, those
  without \<^verbatim>\<open>canCreate\<close> or \<^verbatim>\<open>create\<close> and those whose probe returns a falsy
  value are passed over: the scan of the components before \<open>c\<close> ends with no factory,
  which by \<open>findFactory_loop_declined\<close> and \<open>findFactory_loop_none_declined\<close> happens
  exactly when each of them \<open>declines\<close> in the world it is asked in.
  When the probe of the next component raises, nothing catches the error: it leaves
  \<^verbatim>\<open>findFactory\<close>, the components after it are not probed, and a required
  \<^verbatim>\<open>find\<close> that reached \<^verbatim>\<open>findFactory\<close> after an empty base lookup fails with that
  same error.
\<close>

theorem findFactory_probe_error_propagates:
  assumes "base_getAll env (world s) = (pre @ c # post, w1)"
    and "findFactory_loop env locator pre (s\<lparr>world := w1, calls := calls s @ [BaseGetAll]\<rparr>)
           = (Inr None, s2)"
    and "has_canCreate env c" and "has_create env c"
    and "comp_canCreate env c locator (world s2) = (Inl ex, w3)"
  shows "BuildReferencesDecorator_findFactory env locator s =
           (Inl ex, s2\<lparr>world := w3, calls := calls s2 @ [CanCreate c locator]\<rparr>) \<and>
         (\<forall>s0. ReferencesDecorator_find env locator False s0 = (Inr [], s) \<longrightarrow>
            BuildReferencesDecorator_find env locator True s0 =
              (Inl ex, s2\<lparr>world := w3, calls := calls s2 @ [CanCreate c locator]\<rparr>))"
proof -
  have ff: "BuildReferencesDecorator_findFactory env locator s =
              (Inl ex, s2\<lparr>world := w3, calls := calls s2 @ [CanCreate c locator]\<rparr>)"
    using assms
    by (simp add: BuildReferencesDecorator_findFactory_def ReferencesDecorator_getAll_def
        invoke_eq findFactory_loop_skipped)
  then show ?thesis
    by (simp add: BuildReferencesDecorator_find_def)
qed

theorem findFactory_probe_error_propagates_witness:
  "base_getAll probe_fail_env
       (world \<lparr>world = [(JStr ''plain'', 5), (JStr ''factory'', 1), (JStr ''other'', 2)],
               calls = [BaseFind loc_query False], opened = False\<rparr>) =
     ([5] @ 1 # [2], [(JStr ''plain'', 5), (JStr ''factory'', 1), (JStr ''other'', 2)]) \<and>
   has_canCreate probe_fail_env 1 \<and> has_create probe_fail_env 1 \<and>
   comp_canCreate probe_fail_env 1 loc_query
       [(JStr ''plain'', 5), (JStr ''factory'', 1), (JStr ''other'', 2)] =
     (Inl (ExternalError ''probe failed''),
      [(JStr ''plain'', 5), (JStr ''factory'', 1), (JStr ''other'', 2)]) \<and>
   BuildReferencesDecorator_find probe_fail_env loc_query True
       (initial [(JStr ''plain'', 5), (JStr ''factory'', 1), (JStr ''other'', 2)]) =
     (Inl (ExternalError ''probe failed''),
      \<lparr>world = [(JStr ''plain'', 5), (JStr ''factory'', 1), (JStr ''other'', 2)],
       calls = [BaseFind loc_query False, BaseGetAll, CanCreate 1 loc_query],
       opened = False\<rparr>)"
  using findFactory_probe_error_propagates [of probe_fail_env
      "\<lparr>world = [(JStr ''plain'', 5), (JStr ''factory'', 1), (JStr ''other'', 2)],
        calls = [BaseFind loc_query False], opened = False\<rparr>"
      "[5]" 1 "[2]" "[(JStr ''plain'', 5), (JStr ''factory'', 1), (JStr ''other'', 2)]"
      loc_query
      "\<lparr>world = [(JStr ''plain'', 5), (JStr ''factory'', 1), (JStr ''other'', 2)],
        calls = [BaseFind loc_query False, BaseGetAll], opened = False\<rparr>"
      "ExternalError ''probe failed''"
      "[(JStr ''plain'', 5), (JStr ''factory'', 1), (JStr ''other'', 2)]"]
  by (simp add: registry_defs factory_env_def probe_fail_env_def build_defs)

theorem findFactory_probe_error_counterexample:
  "has_canCreate probe_fail_env 1 \<and> has_create probe_fail_env 1 \<and>
   fst (comp_canCreate probe_fail_env 1 loc_query [(JStr ''factory'', 1)]) =
     Inl (ExternalError ''probe failed'') \<and>
   fst (BuildReferencesDecorator_findFactory probe_fail_env loc_query
          (initial [(JStr ''factory'', 1)])) = Inl (ExternalError ''probe failed'') \<and>
   fst (BuildReferencesDecorator_find probe_fail_env loc_query True
          (initial [(JStr ''factory'', 1)])) = Inl (ExternalError ''probe failed'')"
  by (simp add: registry_defs factory_env_def probe_fail_env_def build_defs)

section \<open>RunReferencesDecorator: the lifecycle\<close>

text \<open>
  C4. Let \<^verbatim>\<open>open\<close> be called while closed, on components \<open>pre @ c # post\<close>, where
  the components of \<open>pre\<close> open without error and the \<^verbatim>\<open>open\<close> of \<open>c\<close> fails with
  \<open>err\<close> (by \<open>Opener_open_failure_decomposes\<close>, every failing batch has this shape).
  Then \<^verbatim>\<open>open\<close> reports \<open>err\<close>, \<^verbatim>\<open>isOpen()\<close> is false afterwards, and the calls
  made are \<^verbatim>\<open>getAll\<close>, the \<^verbatim>\<open>open\<close> of each openable component of \<open>pre\<close> in
  order, and the \<^verbatim>\<open>open\<close> of \<open>c\<close>: nothing of \<open>post\<close> is opened and nothing is
  closed again.
\<close>

theorem open_failure_aborts:
  assumes "\<not> opened s"
    and "base_getAll env (world s) = (pre @ c # post, w1)"
    and "Opener_open env cid pre (s\<lparr>world := w1, calls := calls s @ [BaseGetAll]\<rparr>) = (None, s2)"
    and "has_open env c"
    and "comp_open env c cid (world s2) = (Some err, w3)"
  shows "RunReferencesDecorator_open env cid s =
           (Some err, s2\<lparr>world := w3, calls := calls s2 @ [Open c cid]\<rparr>) \<and>
         \<not> RunReferencesDecorator_isOpen (snd (RunReferencesDecorator_open env cid s)) \<and>
         calls (snd (RunReferencesDecorator_open env cid s)) =
           calls s @ [BaseGetAll] @ map (\<lambda>x. Open x cid) (filter (has_open env) pre) @
           [Open c cid]"
proof -
  let ?s1 = "s\<lparr>world := w1, calls := calls s @ [BaseGetAll]\<rparr>"
  have step: "Opener_open env cid (pre @ c # post) ?s1 =
      (Some err, s2\<lparr>world := w3, calls := calls s2 @ [Open c cid]\<rparr>)"
    using assms(3,4,5) by (simp add: Opener_open_prefix Opener_openOne_def invoke_eq)
  have run: "RunReferencesDecorator_open env cid s =
      (Some err, s2\<lparr>world := w3, calls := calls s2 @ [Open c cid]\<rparr>)"
    using assms(1,2) step
    by (simp add: RunReferencesDecorator_open_def ReferencesDecorator_getAll_def invoke_eq)
  have "opened s2 = opened ?s1" using assms(3) by (rule Opener_open_opened)
  then have cl: "\<not> opened s2" using assms(1) by simp
  have tr: "calls s2 = calls ?s1 @ map (\<lambda>x. Open x cid) (filter (has_open env) pre)"
    using assms(3) by (rule Opener_open_calls)
  show ?thesis
    using run cl tr by (simp add: RunReferencesDecorator_isOpen_def)
qed

theorem open_failure_aborts_witness:
  "\<not> opened (initial three_components) \<and>
   base_getAll (run_env 2) (world (initial three_components)) = ([1] @ 2 # [3], three_components) \<and>
   has_open (run_env 2) 2 \<and>
   comp_open (run_env 2) 2 (Some ''id'') three_components =
     (Some (ExternalError ''open failed''), three_components) \<and>
   RunReferencesDecorator_open (run_env 2) (Some ''id'') (initial three_components) =
     (Some (ExternalError ''open failed''),
      \<lparr>world = three_components,
       calls = [BaseGetAll, Open 1 (Some ''id''), Open 2 (Some ''id'')], opened = False\<rparr>)"
  using open_failure_aborts [of "initial three_components" "run_env 2" "[1]" 2 "[3]"
      three_components "Some ''id''"
      "\<lparr>world = three_components, calls = [BaseGetAll, Open 1 (Some ''id'')], opened = False\<rparr>"
      "ExternalError ''open failed''" three_components]
  by (simp add: registry_defs run_env_def three_components_def RunReferencesDecorator_open_def
      ReferencesDecorator_getAll_def Opener_openOne_def invoke_def)

text \<open>
  C6. Called while opened, \<^verbatim>\<open>close\<close> leaves \<^verbatim>\<open>isOpen()\<close> false, whatever the bulk
  close reports, and reports what the bulk close reported. Called while closed, it
  reports no error and changes nothing.
\<close>

theorem close_always_transitions:
  "(opened s \<longrightarrow>
      \<not> RunReferencesDecorator_isOpen (snd (RunReferencesDecorator_close env cid s)) \<and>
      (\<forall>components w1 err s2.
         base_getAll env (world s) = (components, w1) \<and>
         Closer_close env cid components (s\<lparr>world := w1, calls := calls s @ [BaseGetAll]\<rparr>)
           = (err, s2) \<longrightarrow>
         RunReferencesDecorator_close env cid s = (err, s2\<lparr>opened := False\<rparr>))) \<and>
   (\<not> opened s \<longrightarrow> RunReferencesDecorator_close env cid s = (None, s))"
  by (auto simp add: RunReferencesDecorator_close_def RunReferencesDecorator_isOpen_def
      ReferencesDecorator_getAll_def invoke_def split: prod.splits)

theorem close_always_transitions_witness:
  "opened ((initial three_components)\<lparr>opened := True\<rparr>) \<and>
   RunReferencesDecorator_close (run_env 2) (Some ''id'') ((initial three_components)\<lparr>opened := True\<rparr>) =
     (Some (ExternalError ''close failed''),
      \<lparr>world = three_components,
       calls = [BaseGetAll, Close 1 (Some ''id''), Close 2 (Some ''id'')], opened = False\<rparr>) \<and>
   \<not> opened (initial three_components) \<and>
   RunReferencesDecorator_close (run_env 2) (Some ''id'') (initial three_components) =
     (None, initial three_components)"
  using close_always_transitions [of "(initial three_components)\<lparr>opened := True\<rparr>" "run_env 2"
      "Some ''id''"]
    close_always_transitions [of "initial three_components" "run_env 2" "Some ''id''"]
  by (simp add: registry_defs run_env_def three_components_def RunReferencesDecorator_close_def
      ReferencesDecorator_getAll_def Closer_closeOne_def invoke_def)

text \<open>
  C7. \<^verbatim>\<open>put\<close> puts the pair into the base set. While closed this is all it does.
  While opened it then opens the added component alone, with \<^verbatim>\<open>null\<close> for the
  correlation id, when the component can be opened; whatever that \<^verbatim>\<open>open\<close> reports is
  dropped (\<^verbatim>\<open>put\<close> returns nothing).
\<close>

theorem put_opens_when_opened:
  assumes "base_put env locator component (world s) = (u, w1)"
  shows "(\<not> opened s \<or> \<not> has_open env component \<longrightarrow>
            RunReferencesDecorator_put env locator component s =
              s\<lparr>world := w1, calls := calls s @ [BasePut locator component]\<rparr>) \<and>
         (opened s \<and> has_open env component \<longrightarrow>
            (\<forall>err w2. comp_open env component None w1 = (err, w2) \<longrightarrow>
               RunReferencesDecorator_put env locator component s =
                 s\<lparr>world := w2,
                   calls := calls s @ [BasePut locator component, Open component None]\<rparr>))"
  using assms
  by (auto simp add: RunReferencesDecorator_put_def ReferencesDecorator_put_def
      Opener_openOne_def invoke_def)

theorem put_opens_when_opened_witness:
  "base_put (run_env 4) (JStr ''d'') 4 (world (initial three_components)) =
     ((), three_components @ [(JStr ''d'', 4)]) \<and>
   RunReferencesDecorator_put (run_env 4) (JStr ''d'') 4 (initial three_components) =
     \<lparr>world = three_components @ [(JStr ''d'', 4)], calls = [BasePut (JStr ''d'') 4],
      opened = False\<rparr> \<and>
   comp_open (run_env 4) 4 None (three_components @ [(JStr ''d'', 4)]) =
     (Some (ExternalError ''open failed''), three_components @ [(JStr ''d'', 4)]) \<and>
   RunReferencesDecorator_put (run_env 4) (JStr ''d'') 4
       ((initial three_components)\<lparr>opened := True\<rparr>) =
     \<lparr>world = three_components @ [(JStr ''d'', 4)],
      calls = [BasePut (JStr ''d'') 4, Open 4 None], opened = True\<rparr>"
  using put_opens_when_opened [of "run_env 4" "JStr ''d''" 4 "initial three_components" "()"
      "three_components @ [(JStr ''d'', 4)]"]
    put_opens_when_opened [of "run_env 4" "JStr ''d''" 4
      "(initial three_components)\<lparr>opened := True\<rparr>" "()"
      "three_components @ [(JStr ''d'', 4)]"]
  by (simp add: registry_defs run_env_def three_components_def RunReferencesDecorator_put_def
      ReferencesDecorator_put_def Opener_openOne_def invoke_def)

text \<open>
  C8. When a call of \<^verbatim>\<open>open\<close> has reported no error, a second call right after it
  reports no error either and leaves the state as it is: it calls nothing.
\<close>

theorem open_twice:
  assumes "RunReferencesDecorator_open env cid s = (None, s1)"
  shows "RunReferencesDecorator_open env cid' s1 = (None, s1)"
  using assms
  by (auto simp add: RunReferencesDecorator_open_def split: if_splits prod.splits)

theorem open_twice_witness:
  "RunReferencesDecorator_open (run_env 0) (Some ''id'') (initial three_components) =
     (None, \<lparr>world = three_components,
             calls = [BaseGetAll, Open 1 (Some ''id''), Open 2 (Some ''id''),
                      Open 3 (Some ''id'')],
             opened = True\<rparr>) \<and>
   RunReferencesDecorator_open (run_env 0) (Some ''again'')
       \<lparr>world = three_components,
        calls = [BaseGetAll, Open 1 (Some ''id''), Open 2 (Some ''id''), Open 3 (Some ''id'')],
        opened = True\<rparr> =
     (None, \<lparr>world = three_components,
             calls = [BaseGetAll, Open 1 (Some ''id''), Open 2 (Some ''id''),
                      Open 3 (Some ''id'')],
             opened = True\<rparr>)"
  using open_twice [of "run_env 0" "Some ''id''" "initial three_components"
      "\<lparr>world = three_components,
        calls = [BaseGetAll, Open 1 (Some ''id''), Open 2 (Some ''id''), Open 3 (Some ''id'')],
        opened = True\<rparr>" "Some ''again''"]
  by (simp add: registry_defs run_env_def three_components_def RunReferencesDecorator_open_def
      ReferencesDecorator_getAll_def Opener_openOne_def invoke_def)

text \<open>
  C9. \<^verbatim>\<open>put\<close>, \<^verbatim>\<open>remove\<close> and \<^verbatim>\<open>removeAll\<close> leave \<^verbatim>\<open>_opened\<close> as it was, in
  every state and for every argument. After \<^verbatim>\<open>open\<close> the flag is set exactly when
  it was set before or the call reported no error; after \<^verbatim>\<open>close\<close> it is not set.
\<close>

theorem opened_flag_frame:
  "opened (RunReferencesDecorator_put env locator component s) = opened s \<and>
   opened (snd (RunReferencesDecorator_remove env locator s)) = opened s \<and>
   opened (snd (RunReferencesDecorator_removeAll env locator s)) = opened s \<and>
   opened (snd (RunReferencesDecorator_open env cid s)) =
     (opened s \<or> fst (RunReferencesDecorator_open env cid s) = None) \<and>
   opened (snd (RunReferencesDecorator_close env cid s)) = False"
proof (intro conjI)
  show "opened (RunReferencesDecorator_put env locator component s) = opened s"
    by (cases "ReferencesDecorator_put env locator component s")
      (auto simp add: RunReferencesDecorator_put_def ReferencesDecorator_put_def
        Opener_openOne_opened_snd dest: invoke_opened)
  show "opened (snd (RunReferencesDecorator_remove env locator s)) = opened s"
    by (cases "ReferencesDecorator_remove env locator s")
      (auto simp add: RunReferencesDecorator_remove_def ReferencesDecorator_remove_def
        Closer_closeOne_opened_snd split: option.splits dest: invoke_opened)
  show "opened (snd (RunReferencesDecorator_removeAll env locator s)) = opened s"
    by (cases "ReferencesDecorator_removeAll env locator s")
      (auto simp add: RunReferencesDecorator_removeAll_def ReferencesDecorator_removeAll_def
        Closer_close_opened_snd dest: invoke_opened)
  show "opened (snd (RunReferencesDecorator_open env cid s)) =
     (opened s \<or> fst (RunReferencesDecorator_open env cid s) = None)"
  proof (cases "opened s")
    case True
    then show ?thesis by (simp add: RunReferencesDecorator_open_def)
  next
    case False
    obtain components s1 where g: "ReferencesDecorator_getAll env s = (components, s1)"
      by (cases "ReferencesDecorator_getAll env s")
    obtain err s2 where o: "Opener_open env cid components s1 = (err, s2)"
      by (cases "Opener_open env cid components s1")
    have "opened s1 = opened s"
      using g by (auto simp add: ReferencesDecorator_getAll_def dest: invoke_opened)
    moreover have "opened s2 = opened s1" using o by (rule Opener_open_opened)
    ultimately show ?thesis
      using False g o by (simp add: RunReferencesDecorator_open_def)
  qed
  show "opened (snd (RunReferencesDecorator_close env cid s)) = False"
    by (auto simp add: RunReferencesDecorator_close_def split: prod.splits)
qed

theorem opened_flag_frame_witness:
  "opened (RunReferencesDecorator_put (run_env 2) (JStr ''b'') 2
             ((initial three_components)\<lparr>opened := True\<rparr>)) \<and>
   opened (snd (RunReferencesDecorator_remove (run_env 2) (JStr ''b'')
             ((initial three_components)\<lparr>opened := True\<rparr>))) \<and>
   opened (snd (RunReferencesDecorator_removeAll (run_env 2) (JStr ''b'')
             ((initial three_components)\<lparr>opened := True\<rparr>))) \<and>
   \<not> opened (snd (RunReferencesDecorator_close (run_env 2) (Some ''id'')
             ((initial three_components)\<lparr>opened := True\<rparr>)))"
  using opened_flag_frame [of "run_env 2" "JStr ''b''" 2
      "(initial three_components)\<lparr>opened := True\<rparr>" "Some ''id''"]
  by simp

end
